theory Spec2Isabelle
  imports Complex_Main
begin

section \<open>Data model (App.tsx)\<close>

text \<open>
  The interfaces of \<open>App.tsx\<close> become records. A TypeScript \<open>number\<close> that the code
  only ever fills with an integer (scores, areas, head counts, step numbers) is an
  \<open>int\<close> or a \<open>nat\<close>; a \<open>Date\<close> is its number of milliseconds since the epoch;
  the green-space target is a finite \<open>real\<close>.
  Field names that several interfaces share (\<open>id\<close>, \<open>name\<close>, \<open>status\<close>, \<open>region\<close>,
  \<open>timestamp\<close>, \<open>scenario\<close>) carry the interface as a prefix.
\<close>

text \<open>
  A coordinate is a JavaScript number that may be infinite or not a number:
  \<open>Math.min()\<close> of no arguments is \<open>Infinity\<close>, which the zone generator reaches on
  an empty region.
\<close>

datatype number = Num real | PosInfinity | NegInfinity | NaN

record LatLngLiteral =
  lat :: number
  lng :: number

record TerrainData =
  elevation :: int
  slope :: int
  soilType :: string
  waterPresence :: bool

datatype ZoneType = Park | Garden | Forest | Wetland

record GreenZone =
  zone_id :: string
  zone_name :: string
  area :: int
  zone_type :: ZoneType
  coordinates :: "LatLngLiteral list"

datatype Status = Draft | Completed | Shared

record Comment =
  comment_id :: string
  author :: string
  comment_text :: string
  comment_timestamp :: nat

record Scenario =
  scenario_id :: string
  scenario_name :: string
  scenario_timestamp :: nat
  scenario_region :: "LatLngLiteral list"
  greenZones :: "GreenZone list"
  coverage :: real
  sustainabilityScore :: int
  accessibilityScore :: int
  populationServed :: int
  scenario_status :: Status
  comments :: "Comment list"

record Project =
  project_id :: string
  project_name :: string
  project_region :: string
  project_status :: Status
  project_date :: nat
  project_scenario :: Scenario

section \<open>The analysis wizard (NewAnalysis.tsx)\<close>

text \<open>
  The five \<open>useState\<close> cells of \<open>NewAnalysis\<close>. \<open>null\<close> is \<open>None\<close>. The step is a
  number; the source's type \<open>Step\<close> is \<open>1 | 2 | 3 | 4 | 5\<close>.
\<close>

record NewAnalysis =
  currentStep :: nat
  selectedRegion :: "LatLngLiteral list option"
  regionName :: string
  terrainData :: "TerrainData option"
  scenario :: "Scenario option"

text \<open>
  The initial values of the cells, from the optional \<open>selectedProject\<close> prop. An object
  and an array are truthy in JavaScript (an empty array too), so
  \<open>selectedProject?.scenario.region || null\<close> is the region whenever a project is given,
  and \<open>selectedProject?.region || ''\<close> is the project's region label (the empty label
  gives the empty string either way). \<open>terrainData\<close> starts as \<open>null\<close> in both cases.
\<close>

definition NewAnalysis_init :: "Project option \<Rightarrow> NewAnalysis" where
  "NewAnalysis_init selectedProject =
     (case selectedProject of
        None \<Rightarrow>
          \<lparr> currentStep = 1, selectedRegion = None, regionName = [],
            terrainData = None, scenario = None \<rparr>
      | Some p \<Rightarrow>
          \<lparr> currentStep = 5,
            selectedRegion = Some (scenario_region (project_scenario p)),
            regionName = (if project_region p = [] then [] else project_region p),
            terrainData = None,
            scenario = Some (project_scenario p) \<rparr>)"

definition canProceed :: "NewAnalysis \<Rightarrow> bool" where
  "canProceed w =
     (if currentStep w = 1 then selectedRegion w \<noteq> None \<and> length (regionName w) > 0
      else if currentStep w = 2 then terrainData w \<noteq> None
      else if currentStep w = 3 then scenario w \<noteq> None
      else if currentStep w = 4 then scenario w \<noteq> None
      else True)"

definition handleNext :: "NewAnalysis \<Rightarrow> NewAnalysis" where
  "handleNext w =
     (if canProceed w \<and> currentStep w < 5 then w\<lparr>currentStep := currentStep w + 1\<rparr> else w)"

definition handleBack :: "NewAnalysis \<Rightarrow> NewAnalysis" where
  "handleBack w =
     (if currentStep w > 1 then w\<lparr>currentStep := currentStep w - 1\<rparr> else w)"

section \<open>JavaScript numbers, randomness and the clock\<close>

text \<open>
  Arithmetic on coordinates follows IEEE 754 on the special values; on finite values it
  is exact real arithmetic.
\<close>

fun num_neg :: "number \<Rightarrow> number" where
  "num_neg (Num x) = Num (- x)"
| "num_neg PosInfinity = NegInfinity"
| "num_neg NegInfinity = PosInfinity"
| "num_neg NaN = NaN"

fun num_add :: "number \<Rightarrow> number \<Rightarrow> number" where
  "num_add NaN _ = NaN"
| "num_add _ NaN = NaN"
| "num_add (Num x) (Num y) = Num (x + y)"
| "num_add PosInfinity NegInfinity = NaN"
| "num_add NegInfinity PosInfinity = NaN"
| "num_add PosInfinity _ = PosInfinity"
| "num_add _ PosInfinity = PosInfinity"
| "num_add NegInfinity _ = NegInfinity"
| "num_add _ NegInfinity = NegInfinity"

definition num_sub :: "number \<Rightarrow> number \<Rightarrow> number" where
  "num_sub a b = num_add a (num_neg b)"

text \<open>The sign of a number other than \<open>NaN\<close>: \<open>-1\<close>, \<open>0\<close> or \<open>1\<close>.\<close>

fun num_sign :: "number \<Rightarrow> int" where
  "num_sign (Num x) = (if x = 0 then 0 else if 0 < x then 1 else - 1)"
| "num_sign PosInfinity = 1"
| "num_sign NegInfinity = - 1"
| "num_sign NaN = 0"

fun num_mul :: "number \<Rightarrow> number \<Rightarrow> number" where
  "num_mul NaN _ = NaN"
| "num_mul _ NaN = NaN"
| "num_mul (Num x) (Num y) = Num (x * y)"
| "num_mul a b =
     (if num_sign a * num_sign b = 0 then NaN
      else if 0 < num_sign a * num_sign b then PosInfinity else NegInfinity)"

fun min2 :: "number \<Rightarrow> number \<Rightarrow> number" where
  "min2 NaN _ = NaN"
| "min2 _ NaN = NaN"
| "min2 NegInfinity _ = NegInfinity"
| "min2 _ NegInfinity = NegInfinity"
| "min2 PosInfinity y = y"
| "min2 x PosInfinity = x"
| "min2 (Num x) (Num y) = Num (min x y)"

fun max2 :: "number \<Rightarrow> number \<Rightarrow> number" where
  "max2 NaN _ = NaN"
| "max2 _ NaN = NaN"
| "max2 PosInfinity _ = PosInfinity"
| "max2 _ PosInfinity = PosInfinity"
| "max2 NegInfinity y = y"
| "max2 x NegInfinity = x"
| "max2 (Num x) (Num y) = Num (max x y)"

text \<open>\<open>Math.min(...xs)\<close> and \<open>Math.max(...xs)\<close>: \<open>Infinity\<close> and \<open>-Infinity\<close> on no arguments.\<close>

definition Math_min :: "number list \<Rightarrow> number" where
  "Math_min xs = foldl min2 PosInfinity xs"

definition Math_max :: "number list \<Rightarrow> number" where
  "Math_max xs = foldl max2 NegInfinity xs"

text \<open>
  A sum of two doubles is the exact sum rounded to the nearest double, a tie going to
  the neighbour whose last bit is zero. \<open>double_round\<close> rounds a real to 53 significant
  bits in this way (overflow and subnormal numbers are left out: the exponent is not
  bounded). It is applied where a claim depends on the rounding, that is to the sum in
  the zone count; the arithmetic on coordinates is exact.
\<close>

definition round_half_even :: "real \<Rightarrow> int" where
  "round_half_even y =
     (let f = \<lfloor>y\<rfloor>
      in if y - of_int f < 1 / 2 then f
         else if 1 / 2 < y - of_int f then f + 1
         else if even f then f else f + 1)"

definition double_round :: "real \<Rightarrow> real" where
  "double_round x =
     (if x = 0 then 0
      else
        (let e = \<lfloor>log 2 \<bar>x\<bar>\<rfloor>;
             ulp = 2 powi (e - 52)
         in of_int (round_half_even (x / ulp)) * ulp))"

text \<open>
  \<open>Math.random()\<close> returns a number that is at least 0 and less than 1: the type of
  its results. The runs of the program differ in the numbers drawn and in the clock
  readings, so both are inputs: the world holds the draws and the readings still to
  come, and each call takes the next one. \<open>toLocaleDateString\<close> depends on the
  browser's locale and is an input as well.
\<close>

typedef random_number = "{x::real. 0 \<le> x \<and> x < 1}"
  by (rule exI [of _ 0]) simp

record world =
  random_feed :: "nat \<Rightarrow> random_number"
  clock_feed :: "nat \<Rightarrow> nat"
  toLocaleDateString :: "nat \<Rightarrow> string"

definition Math_random :: "world \<Rightarrow> real \<times> world" where
  "Math_random w =
     (Rep_random_number (random_feed w 0), w\<lparr>random_feed := (\<lambda>n. random_feed w (Suc n))\<rparr>)"

text \<open>\<open>Date.now()\<close> and \<open>new Date()\<close> both read the clock.\<close>

definition Date_now :: "world \<Rightarrow> nat \<times> world" where
  "Date_now w = (clock_feed w 0, w\<lparr>clock_feed := (\<lambda>n. clock_feed w (Suc n))\<rparr>)"

text \<open>A non-negative integer in a template literal: its decimal digits.\<close>

definition digit_char :: "nat \<Rightarrow> char" where
  "digit_char d = ''0123456789'' ! d"

function show_nat :: "nat \<Rightarrow> string" where
  "show_nat n = (if n < 10 then [digit_char n] else show_nat (n div 10) @ [digit_char (n mod 10)])"
  by pat_completeness auto
termination
  by (relation "measure (\<lambda>n. n)") auto

declare show_nat.simps [simp del]

section \<open>The mock scenario generator (StepRunAnalysis.tsx)\<close>

definition zoneTypes :: "ZoneType list" where
  "zoneTypes = [Park, Garden, Forest, Wetland]"

fun zoneNames :: "ZoneType \<Rightarrow> string list" where
  "zoneNames Park = [''Central Park'', ''Community Park'', ''Riverside Park'', ''Heritage Park'']"
| "zoneNames Garden = [''Botanical Garden'', ''Rose Garden'', ''Herb Garden'', ''Sculpture Garden'']"
| "zoneNames Forest = [''Urban Forest'', ''Nature Reserve'', ''Wildlife Corridor'', ''Green Belt'']"
| "zoneNames Wetland = [''Wetland Preserve'', ''Marsh Area'', ''Pond Ecosystem'', ''Water Garden'']"

fun sizeMultiplier :: "ZoneType \<Rightarrow> real" where
  "sizeMultiplier Park = 3 / 1000"
| "sizeMultiplier Garden = 2 / 1000"
| "sizeMultiplier Forest = 4 / 1000"
| "sizeMultiplier Wetland = 25 / 10000"

text \<open>
  The body of the \<open>for\<close> loop of \<open>generateMockGreenZones\<close>, at index \<open>i\<close>: one draw for
  the name, one for the area. \<open>(i * 0.7) % 1\<close> on a non-negative number is its
  fractional part.
\<close>

definition mockZone ::
  "nat \<Rightarrow> int \<Rightarrow> number \<Rightarrow> number \<Rightarrow> number \<Rightarrow> number \<Rightarrow> world \<Rightarrow> GreenZone \<times> world" where
  "mockZone i numZones minLat maxLat minLng maxLng w =
     (let zoneType = zoneTypes ! (i mod length zoneTypes);
          (r1, w1) = Math_random w;
          zoneName = zoneNames zoneType ! nat \<lfloor>r1 * real (length (zoneNames zoneType))\<rfloor>;
          latRange = num_sub maxLat minLat;
          lngRange = num_sub maxLng minLng;
          centerLat = num_add minLat
            (num_mul latRange (Num (2 / 10 + (real i * (6 / 10)) / real_of_int numZones)));
          centerLng = num_add minLng
            (num_mul lngRange (Num (2 / 10 + frac (real i * (7 / 10)))));
          size = Num (sizeMultiplier zoneType);
          (r2, w2) = Math_random w1
      in (\<lparr> zone_id = ''zone-'' @ show_nat i,
             zone_name = zoneName,
             area = \<lfloor>r2 * 30000\<rfloor> + 15000,
             zone_type = zoneType,
             coordinates =
               [\<lparr>lat = num_sub centerLat size, lng = num_sub centerLng size\<rparr>,
                \<lparr>lat = num_add centerLat size, lng = num_sub centerLng size\<rparr>,
                \<lparr>lat = num_add centerLat size, lng = num_add centerLng size\<rparr>,
                \<lparr>lat = num_sub centerLat size, lng = num_add centerLng size\<rparr>] \<rparr>,
          w2))"

text \<open>The loop \<open>for (let i = 0; i < numZones; i++)\<close>, pushing one zone per round.\<close>

function zonesLoop ::
  "nat \<Rightarrow> int \<Rightarrow> number \<Rightarrow> number \<Rightarrow> number \<Rightarrow> number \<Rightarrow> world \<Rightarrow> GreenZone list
     \<Rightarrow> GreenZone list \<times> world" where
  "zonesLoop i numZones minLat maxLat minLng maxLng w zones =
     (if int i < numZones then
        (case mockZone i numZones minLat maxLat minLng maxLng w of
           (zone, w') \<Rightarrow> zonesLoop (i + 1) numZones minLat maxLat minLng maxLng w' (zones @ [zone]))
      else (zones, w))"
  by pat_completeness auto
termination
  by (relation "measure (\<lambda>(i, numZones, _). nat numZones - i)") auto

declare zonesLoop.simps [simp del]

text \<open>
  \<open>generateMockGreenZones\<close>. The target is a double. Dividing it by 8 is exact in
  double arithmetic (only the exponent changes); adding 1 rounds.
\<close>

definition generateMockGreenZones ::
  "LatLngLiteral list \<Rightarrow> real \<Rightarrow> world \<Rightarrow> GreenZone list \<times> world" where
  "generateMockGreenZones region targetCoverage w =
     (let numZones = max 3 \<lfloor>double_round (targetCoverage / 8 + 1)\<rfloor>;
          minLat = Math_min (map lat region);
          maxLat = Math_max (map lat region);
          minLng = Math_min (map lng region);
          maxLng = Math_max (map lng region)
      in zonesLoop 0 numZones minLat maxLat minLng maxLng w [])"

text \<open>The \<open>useState\<close> cells of \<open>StepRunAnalysis\<close> and their initial values.\<close>

record StepRunAnalysis =
  isRunning :: bool
  greenSpaceTarget :: real
  priorityType :: string
  progress :: nat

definition StepRunAnalysis_init :: StepRunAnalysis where
  "StepRunAnalysis_init =
     \<lparr> isRunning = False, greenSpaceTarget = 25, priorityType = ''balanced'', progress = 0 \<rparr>"

text \<open>
  The scenario that \<open>runAnalysis\<close> builds after the progress steps: the zones first,
  then the fields of the object literal in their order (three clock readings, then
  three draws).
\<close>

definition mockScenario :: "LatLngLiteral list \<Rightarrow> StepRunAnalysis \<Rightarrow> world \<Rightarrow> Scenario \<times> world" where
  "mockScenario region st w =
     (let (zones, w1) = generateMockGreenZones region (greenSpaceTarget st) w;
          (t1, w2) = Date_now w1;
          (t2, w3) = Date_now w2;
          (t3, w4) = Date_now w3;
          (r1, w5) = Math_random w4;
          (r2, w6) = Math_random w5;
          (r3, w7) = Math_random w6
      in (\<lparr> scenario_id = ''scenario-'' @ show_nat t1,
             scenario_name = ''AI Generated Scenario '' @ toLocaleDateString w t2,
             scenario_timestamp = t3,
             scenario_region = region,
             greenZones = zones,
             coverage = greenSpaceTarget st,
             sustainabilityScore = \<lfloor>r1 * 30\<rfloor> + 70,
             accessibilityScore = \<lfloor>r2 * 25\<rfloor> + 75,
             populationServed = \<lfloor>r3 * 50000\<rfloor> + 100000,
             scenario_status = Draft,
             comments = [] \<rparr>,
          w7))"

text \<open>
  \<open>runAnalysis\<close>, with the \<open>selectedRegion\<close> prop as \<open>region\<close>: nothing happens without
  a region; otherwise the progress cell is stepped through 20, 40, 60, 80 and 100 (the
  waits between them are not modelled), the scenario is built and handed to
  \<open>onScenarioGenerated\<close> (the first component of the result), and \<open>isRunning\<close> is reset.
\<close>

definition runAnalysis ::
  "LatLngLiteral list option \<Rightarrow> StepRunAnalysis \<Rightarrow> world
     \<Rightarrow> Scenario option \<times> StepRunAnalysis \<times> world" where
  "runAnalysis region st w =
     (case region of
        None \<Rightarrow> (None, st, w)
      | Some r \<Rightarrow>
          (let st1 = st\<lparr>isRunning := True, progress := 0\<rparr>;
               st2 = foldl (\<lambda>s p. s\<lparr>progress := p\<rparr>) st1 [20, 40, 60, 80, 100];
               (generated, w') = mockScenario r st w
           in (Some generated, st2\<lparr>isRunning := False\<rparr>, w')))"

section \<open>The collaborate step (StepCollaborate.tsx)\<close>

text \<open>
  \<open>String.prototype.trim\<close> removes white space and line terminators from both ends.
  A \<open>char\<close> is a code unit below 256; among these the white space and line
  terminators of ECMAScript are tab, line feed, vertical tab, form feed, carriage
  return, space and the no-break space.
\<close>

definition isWhiteSpace :: "char \<Rightarrow> bool" where
  "isWhiteSpace c = ((of_char c :: nat) \<in> set [9, 10, 11, 12, 13, 32, 160])"

definition trim :: "string \<Rightarrow> string" where
  "trim s = rev (dropWhile isWhiteSpace (rev (dropWhile isWhiteSpace s)))"

text \<open>
  The handlers take the \<open>scenario\<close> prop and return the scenario the parent holds
  afterwards: the wizard passes its \<open>setScenario\<close> as \<open>onScenarioUpdate\<close>, so a handler
  that calls \<open>onScenarioUpdate(updatedScenario)\<close> returns \<open>updatedScenario\<close>, and one that
  returns early returns the prop. Toasts are returned as the list of their messages.
\<close>

record StepCollaborate =
  newComment :: string

definition handleAddComment ::
  "Scenario \<Rightarrow> StepCollaborate \<Rightarrow> world \<Rightarrow> Scenario \<times> StepCollaborate \<times> string list \<times> world" where
  "handleAddComment sc st w =
     (if trim (newComment st) = [] then (sc, st, [], w)
      else
        (let (t1, w1) = Date_now w;
             (t2, w2) = Date_now w1;
             comment = \<lparr> comment_id = ''comment-'' @ show_nat t1,
                         author = ''Urban Planner'',
                         comment_text = newComment st,
                         comment_timestamp = t2 \<rparr>;
             updatedScenario = sc\<lparr>comments := comments sc @ [comment]\<rparr>
         in (updatedScenario, st\<lparr>newComment := []\<rparr>, [''Comment added''], w2)))"

text \<open>
  \<open>handleApprove\<close>: the status becomes \<open>completed\<close>. With a (non-empty) \<open>projectId\<close> and
  an \<open>onProjectUpdate\<close> callback the new status and scenario are sent to the project
  store with \<open>PUT\<close>; \<open>putRejected\<close> tells whether that \<open>fetch\<close> threw. The result is the
  scenario, the body sent (if any), whether \<open>onProjectUpdate\<close> was called, and the toast.
\<close>

definition handleApprove ::
  "Scenario \<Rightarrow> string option \<Rightarrow> bool \<Rightarrow> bool
     \<Rightarrow> Scenario \<times> (Status \<times> Scenario) option \<times> bool \<times> string list" where
  "handleApprove sc projectId hasOnProjectUpdate putRejected =
     (let updatedScenario = sc\<lparr>scenario_status := Completed\<rparr>
      in if projectId \<noteq> None \<and> projectId \<noteq> Some [] \<and> hasOnProjectUpdate then
           (if putRejected then
              (updatedScenario, Some (Completed, updatedScenario), False,
               [''Failed to save project status''])
            else
              (updatedScenario, Some (Completed, updatedScenario), True,
               [''Project approved and saved'']))
         else (updatedScenario, None, False, [''Scenario approved'']))"

definition handleShare :: "Scenario \<Rightarrow> Scenario \<times> string list" where
  "handleShare sc = (sc\<lparr>scenario_status := Shared\<rparr>, [''Scenario shared with team''])"

text \<open>
  What the user can do to the scenario on this screen: add the comment typed so far, or
  press \<open>Approve & Complete\<close>, which is disabled once the status is \<open>completed\<close>.
  \<open>handleShare\<close> is bound to no control of the screen; it is an action here all the
  same, so that the properties below cover it.
\<close>

datatype collaborate_action =
    AddComment string
  | Approve "string option" bool bool
  | Share

fun collaborate_step :: "Scenario \<times> world \<Rightarrow> collaborate_action \<Rightarrow> Scenario \<times> world" where
  "collaborate_step (sc, w) (AddComment typed) =
     (case handleAddComment sc \<lparr>newComment = typed\<rparr> w of (sc', _, _, w') \<Rightarrow> (sc', w'))"
| "collaborate_step (sc, w) (Approve projectId hasOnProjectUpdate putRejected) =
     (if scenario_status sc = Completed then (sc, w)
      else (fst (handleApprove sc projectId hasOnProjectUpdate putRejected), w))"
| "collaborate_step (sc, w) Share = (fst (handleShare sc), w)"

section \<open>The region selector (MapInterface.tsx)\<close>

text \<open>
  The drawing state of \<open>MapInterface\<close>. The map object is present once the script has
  loaded; it carries the click listeners attached to it (their number) and the
  \<open>_drawingClickListener\<close> property that remembers the last one. The preview polygon
  behind \<open>tempPolygonRef\<close> has its path and whether it is shown on the map.
\<close>

record gmap =
  attached :: nat
  drawingClickListener :: bool

record polygon =
  paths :: "LatLngLiteral list"
  onMap :: bool

record MapInterface =
  map_state :: "gmap option"
  isDrawing :: bool
  drawingPoints :: "LatLngLiteral list"
  tempPolygonRef :: "polygon option"

definition MapInterface_init :: MapInterface where
  "MapInterface_init =
     \<lparr> map_state = None, isDrawing = False, drawingPoints = [], tempPolygonRef = None \<rparr>"

definition removeListener :: "gmap \<Rightarrow> gmap" where
  "removeListener m =
     (if drawingClickListener m then m\<lparr>attached := attached m - 1, drawingClickListener := False\<rparr>
      else m)"

definition handleStartDrawing :: "MapInterface \<Rightarrow> MapInterface" where
  "handleStartDrawing s =
     (case map_state s of
        None \<Rightarrow> s
      | Some m \<Rightarrow>
          s\<lparr> isDrawing := True, drawingPoints := [],
             map_state := Some (m\<lparr>attached := attached m + 1, drawingClickListener := True\<rparr>) \<rparr>)"

text \<open>
  A click on the map runs every attached listener; each appends the point, unless the
  event has no \<open>latLng\<close>.
\<close>

definition mapClick :: "LatLngLiteral option \<Rightarrow> MapInterface \<Rightarrow> MapInterface" where
  "mapClick latLng s =
     (case (map_state s, latLng) of
        (Some m, Some newPoint) \<Rightarrow>
          s\<lparr>drawingPoints := drawingPoints s @ replicate (attached m) newPoint\<rparr>
      | _ \<Rightarrow> s)"

text \<open>
  \<open>handleFinishDrawing\<close> returns the new state and the argument of \<open>onRegionSelect\<close>,
  if it was called.
\<close>

definition handleFinishDrawing :: "MapInterface \<Rightarrow> MapInterface \<times> LatLngLiteral list option" where
  "handleFinishDrawing s =
     (case map_state s of
        None \<Rightarrow> (s, None)
      | Some m \<Rightarrow>
          if length (drawingPoints s) < 3 then (s, None)
          else
            (s\<lparr> map_state := Some (removeListener m), tempPolygonRef := None,
                isDrawing := False, drawingPoints := [] \<rparr>,
             Some (drawingPoints s)))"

definition handleCancelDrawing :: "MapInterface \<Rightarrow> MapInterface" where
  "handleCancelDrawing s =
     (case map_state s of
        None \<Rightarrow> s
      | Some m \<Rightarrow>
          s\<lparr> map_state := Some (removeListener m), tempPolygonRef := None,
             isDrawing := False, drawingPoints := [] \<rparr>)"

text \<open>The effect that redraws the preview polygon while drawing.\<close>

definition updateTempPolygon :: "MapInterface \<Rightarrow> MapInterface" where
  "updateTempPolygon s =
     (if map_state s = None \<or> \<not> isDrawing s then s
      else
        (let hidden = map_option (\<lambda>p. p\<lparr>onMap := False\<rparr>) (tempPolygonRef s)
         in if length (drawingPoints s) < 2 then s\<lparr>tempPolygonRef := hidden\<rparr>
            else s\<lparr>tempPolygonRef := Some \<lparr>paths = drawingPoints s, onMap = True\<rparr>\<rparr>))"

text \<open>
  What can happen to the component: the map script loads (once), the user presses
  \<open>Select Region\<close> (rendered once the map has loaded, disabled while drawing), clicks on
  the map, or presses \<open>Finish\<close> or \<open>Cancel\<close> (both rendered only while drawing; \<open>Finish\<close>
  is disabled below three points). A press on a control that is disabled or not
  rendered does nothing. The effect runs after every event.
\<close>

datatype map_event = MapLoaded | SelectRegion | MapClick "LatLngLiteral option" | Finish | Cancel

fun map_handler :: "MapInterface \<Rightarrow> map_event \<Rightarrow> MapInterface" where
  "map_handler s MapLoaded =
     (if map_state s = None then s\<lparr>map_state := Some \<lparr>attached = 0, drawingClickListener = False\<rparr>\<rparr>
      else s)"
| "map_handler s SelectRegion =
     (if map_state s \<noteq> None \<and> \<not> isDrawing s then handleStartDrawing s else s)"
| "map_handler s (MapClick latLng) = mapClick latLng s"
| "map_handler s Finish =
     (if isDrawing s \<and> \<not> length (drawingPoints s) < 3 then fst (handleFinishDrawing s) else s)"
| "map_handler s Cancel = (if isDrawing s then handleCancelDrawing s else s)"

definition map_step :: "MapInterface \<Rightarrow> map_event \<Rightarrow> MapInterface" where
  "map_step s e = updateTempPolygon (map_handler s e)"

text \<open>
  What holds of the drawing state after any sequence of events: while drawing, exactly
  one click listener is attached; otherwise none is and no points are held.
\<close>

definition drawing_inv :: "MapInterface \<Rightarrow> bool" where
  "drawing_inv s =
     (case map_state s of
        None \<Rightarrow> \<not> isDrawing s \<and> drawingPoints s = []
      | Some m \<Rightarrow>
          if isDrawing s then attached m = 1 \<and> drawingClickListener m
          else attached m = 0 \<and> \<not> drawingClickListener m \<and> drawingPoints s = [])"

section \<open>The application shell and the project store client (App.tsx, api.ts)\<close>

text \<open>
  How a call of \<open>fetch\<close> followed by \<open>response.json()\<close> can end:
  \<^item> something is thrown (an \<open>Error\<close> with its message, or another value);
  \<^item> a response arrives whose \<open>ok\<close> flag is false, with its status and a body other
    than \<open>null\<close> (with the \<open>detail\<close> of the body, if it has one);
  \<^item> a response arrives whose \<open>ok\<close> flag is false and whose body is \<open>null\<close>: reading
    \<open>data.detail\<close> then throws a \<open>TypeError\<close> (with its message), which the \<open>catch\<close>
    of \<open>request\<close> handles like any other error;
  \<^item> a response arrives whose flag is true, with its status and a truthy body (the
    object or array that the store sends on success);
  \<^item> a response arrives whose flag is true and whose body is falsy (\<open>null\<close>, \<open>false\<close>,
    \<open>0\<close> or the empty string).
  In an \<open>ApiResponse\<close>, \<open>data\<close> is \<open>None\<close> when the field is absent or falsy: the callers
  only test it for truth.
\<close>

datatype 'a http_outcome =
    Thrown "string option"
  | HttpError nat "string option"
  | HttpErrorNull nat string
  | HttpOk nat 'a
  | HttpOkFalsy nat

record 'a ApiResponse =
  data :: "'a option"
  error :: "string option"
  status :: nat

fun request :: "'a http_outcome \<Rightarrow> 'a ApiResponse" where
  "request (Thrown (Some message)) = \<lparr> data = None, error = Some message, status = 0 \<rparr>"
| "request (Thrown None) = \<lparr> data = None, error = Some ''Network error'', status = 0 \<rparr>"
| "request (HttpError code detail) =
     \<lparr> data = None,
       error = Some (case detail of
                       None \<Rightarrow> ''An error occurred''
                     | Some d \<Rightarrow> if d = [] then ''An error occurred'' else d),
       status = code \<rparr>"
| "request (HttpErrorNull code message) = \<lparr> data = None, error = Some message, status = 0 \<rparr>"
| "request (HttpOk code body) = \<lparr> data = Some body, error = None, status = code \<rparr>"
| "request (HttpOkFalsy code) = \<lparr> data = None, error = None, status = code \<rparr>"

datatype Page = Dashboard | NewAnalysisPage | ProjectsPage | HelpPage

record projectData =
  pd_name :: string
  pd_region :: string
  pd_status :: Status
  pd_scenario :: Scenario

datatype api_call =
    GetProjects
  | CreateProject projectData
  | UpdateProject string Status Scenario
  | DeleteProject string

text \<open>
  The state of \<open>App\<close>, the state of the \<open>NewAnalysis\<close> component while it is mounted
  (\<open>None\<close> when it is not: React drops the cells of a component that is no longer
  rendered), the calls made to the project store so far (those of the client and the
  \<open>PUT\<close> that \<open>handleApprove\<close> sends with \<open>fetch\<close>), and the console.
\<close>

record App =
  currentPage :: Page
  projects :: "Project list"
  isLoading :: bool
  selectedProject :: "Project option"
  newAnalysis :: "NewAnalysis option"
  api_calls :: "api_call list"
  console_errors :: "string list"

text \<open>
  Rendering: \<open>NewAnalysis\<close> is rendered exactly on the page \<open>new-analysis\<close>; it is mounted
  with its initial cells when it appears and unmounted when it disappears.
\<close>

definition render :: "App \<Rightarrow> App" where
  "render a =
     (if currentPage a = NewAnalysisPage then
        (case newAnalysis a of
           None \<Rightarrow> a\<lparr>newAnalysis := Some (NewAnalysis_init (selectedProject a))\<rparr>
         | Some _ \<Rightarrow> a)
      else a\<lparr>newAnalysis := None\<rparr>)"

text \<open>The \<open>onCancel\<close> prop that \<open>App\<close> passes to \<open>NewAnalysis\<close>.\<close>

definition onCancel :: "App \<Rightarrow> App" where
  "onCancel a = render (a\<lparr>selectedProject := None, currentPage := Dashboard\<rparr>)"

text \<open>
  The sidebar is rendered on every page; \<open>App\<close> passes \<open>setCurrentPage\<close> as its
  \<open>onNavigate\<close>.
\<close>

definition onNavigate :: "Page \<Rightarrow> App \<Rightarrow> App" where
  "onNavigate page a = render (a\<lparr>currentPage := page\<rparr>)"

definition handleViewProject :: "Project \<Rightarrow> App \<Rightarrow> App" where
  "handleViewProject project a =
     render (a\<lparr>selectedProject := Some project, currentPage := NewAnalysisPage\<rparr>)"

text \<open>
  \<open>loadProjects\<close>, given how its \<open>GET\<close> ends. \<open>request\<close> never throws, so the \<open>catch\<close>
  block is not reached; the dates of the projects are milliseconds on both sides.
\<close>

definition loadProjects :: "Project list http_outcome \<Rightarrow> App \<Rightarrow> App" where
  "loadProjects listed a =
     (let a1 = a\<lparr>api_calls := api_calls a @ [GetProjects]\<rparr>;
          response = request listed
      in (case data response of
            Some ps \<Rightarrow> a1\<lparr>projects := ps, isLoading := False\<rparr>
          | None \<Rightarrow> a1\<lparr>isLoading := False\<rparr>))"

text \<open>
  \<open>handleSaveProject\<close> is asynchronous. Up to its first \<open>await\<close> it builds the payload
  and sends it (\<open>handleSaveProject_send\<close>); it resumes when the store has answered
  (\<open>handleSaveProject_resume\<close>, given how the \<open>POST\<close> and the following \<open>GET\<close> end). Its
  caller does not wait for it.
\<close>

definition handleSaveProject_send :: "Scenario \<Rightarrow> string \<Rightarrow> App \<Rightarrow> App" where
  "handleSaveProject_send sc name a =
     (let projectData = \<lparr> pd_name = scenario_name sc, pd_region = name,
                           pd_status = scenario_status sc, pd_scenario = sc \<rparr>
      in a\<lparr>api_calls := api_calls a @ [CreateProject projectData]\<rparr>)"

definition handleSaveProject_resume ::
  "Project http_outcome \<Rightarrow> Project list http_outcome \<Rightarrow> App \<Rightarrow> App" where
  "handleSaveProject_resume created listed a =
     (let response = request created
      in if data response \<noteq> None then loadProjects listed a else a)"

text \<open>
  \<open>handleSave\<close> of the mounted wizard: with a scenario it calls \<open>onSaveProject\<close>, which
  runs up to its first \<open>await\<close>, and then \<open>onCancel\<close>.
\<close>

definition handleSave :: "App \<Rightarrow> App" where
  "handleSave a =
     (case newAnalysis a of
        None \<Rightarrow> a
      | Some w \<Rightarrow>
          (case scenario w of
             None \<Rightarrow> a
           | Some sc \<Rightarrow> onCancel (handleSaveProject_send sc (regionName w) a)))"

text \<open>
  A press on \<open>Approve & Complete\<close> in the mounted wizard. The collaborate step is
  rendered at step 5 when a scenario is present, with \<open>setScenario\<close> as
  \<open>onScenarioUpdate\<close>, the id of \<open>selectedProject\<close> as \<open>projectId\<close> and \<open>loadProjects\<close> as
  \<open>onProjectUpdate\<close>; the button is disabled once the status is \<open>completed\<close>. The
  arguments tell whether the \<open>PUT\<close> threw and how the following \<open>GET\<close> ends.
\<close>

definition clickApprove :: "bool \<Rightarrow> Project list http_outcome \<Rightarrow> App \<Rightarrow> App" where
  "clickApprove putRejected listed a =
     (case newAnalysis a of
        None \<Rightarrow> a
      | Some w \<Rightarrow>
          (case scenario w of
             None \<Rightarrow> a
           | Some sc \<Rightarrow>
               if currentStep w \<noteq> 5 \<or> scenario_status sc = Completed then a
               else
                 (case handleApprove sc (map_option project_id (selectedProject a)) True
                         putRejected of
                    (updated, sent, refreshed, toasts) \<Rightarrow>
                      (let a1 = a\<lparr>newAnalysis := Some (w\<lparr>scenario := Some updated\<rparr>)\<rparr>;
                           a2 = (case (sent, selectedProject a) of
                                   (Some (st, body), Some p) \<Rightarrow>
                                     a1\<lparr>api_calls :=
                                          api_calls a1 @ [UpdateProject (project_id p) st body]\<rparr>
                                 | _ \<Rightarrow> a1)
                       in if refreshed then loadProjects listed a2 else a2))))"

text \<open>The scenario that the mounted wizard holds, if any.\<close>

definition wizard_scenario :: "App \<Rightarrow> Scenario option" where
  "wizard_scenario a = (case newAnalysis a of None \<Rightarrow> None | Some w \<Rightarrow> scenario w)"

section \<open>Concrete inputs\<close>

definition square_region :: "LatLngLiteral list" where
  "square_region =
     [\<lparr>lat = Num 0, lng = Num 0\<rparr>, \<lparr>lat = Num 1, lng = Num 0\<rparr>,
      \<lparr>lat = Num 1, lng = Num 1\<rparr>, \<lparr>lat = Num 0, lng = Num 1\<rparr>]"

definition sample_terrain :: TerrainData where
  "sample_terrain =
     \<lparr> elevation = 120, slope = 4, soilType = ''Loam'', waterPresence = False \<rparr>"

definition sample_scenario :: Scenario where
  "sample_scenario =
     \<lparr> scenario_id = ''scenario-1'', scenario_name = ''AI Generated Scenario'',
       scenario_timestamp = 1, scenario_region = square_region, greenZones = [],
       coverage = 25, sustainabilityScore = 80, accessibilityScore = 90,
       populationServed = 120000, scenario_status = Draft, comments = [] \<rparr>"

definition sample_project :: Project where
  "sample_project =
     \<lparr> project_id = ''7'', project_name = ''AI Generated Scenario'',
       project_region = ''Bayreuth'', project_status = Draft, project_date = 2,
       project_scenario = sample_scenario \<rparr>"

definition half :: random_number where
  "half = Abs_random_number (1 / 2)"

definition sample_world :: world where
  "sample_world =
     \<lparr> random_feed = (\<lambda>_. half), clock_feed = (\<lambda>n. 1700000000000 + n),
       toLocaleDateString = (\<lambda>_. ''11/2/2026'') \<rparr>"

definition completed_scenario :: Scenario where
  "completed_scenario = sample_scenario\<lparr>scenario_status := Completed\<rparr>"

definition shared_scenario :: Scenario where
  "shared_scenario = sample_scenario\<lparr>scenario_status := Shared\<rparr>"

definition approved_project :: Project where
  "approved_project =
     sample_project\<lparr>project_status := Completed, project_scenario := completed_scenario\<rparr>"

definition dashboard_app :: App where
  "dashboard_app =
     \<lparr> currentPage = Dashboard, projects = [sample_project], isLoading = False,
       selectedProject = None, newAnalysis = None, api_calls = [], console_errors = [] \<rparr>"

text \<open>
  The sample project is opened from the dashboard and approved; the \<open>PUT\<close> and the
  reload succeed.
\<close>

definition approved_app :: App where
  "approved_app =
     clickApprove False (HttpOk 200 [approved_project])
       (handleViewProject sample_project dashboard_app)"


definition finished_wizard :: NewAnalysis where
  "finished_wizard =
     \<lparr> currentStep = 5, selectedRegion = Some square_region, regionName = ''Bayreuth'',
       terrainData = Some sample_terrain, scenario = Some sample_scenario \<rparr>"

definition sample_app :: App where
  "sample_app =
     \<lparr> currentPage = NewAnalysisPage, projects = [], isLoading = False,
       selectedProject = None, newAnalysis = Some finished_wizard,
       api_calls = [], console_errors = [] \<rparr>"

definition corner :: "nat \<Rightarrow> LatLngLiteral" where
  "corner k = square_region ! k"

definition three_clicks :: "map_event list" where
  "three_clicks =
     [MapLoaded, SelectRegion, MapClick (Some (corner 0)), MapClick (Some (corner 1)),
      MapClick (Some (corner 2))]"

definition two_clicks :: "map_event list" where
  "two_clicks = [MapLoaded, SelectRegion, MapClick (Some (corner 0)), MapClick (Some (corner 1))]"

section \<open>Properties of the wizard\<close>

lemma handleNext_blocked: "\<not> canProceed w \<Longrightarrow> handleNext w = w"
  by (simp add: handleNext_def)

lemma handleNext_moves:
  "currentStep (handleNext w) \<noteq> currentStep w \<Longrightarrow>
     canProceed w \<and> currentStep (handleNext w) = currentStep w + 1"
  by (simp add: handleNext_def split: if_splits)

text \<open>
  Claim C1. Whenever \<open>next()\<close> changes the step, the completion predicate of the step
  it leaves held: at step 1 a region is set and the name is non-empty, at step 2 a
  terrain record is present, at steps 3 and 4 a scenario is present, and the step went
  up by exactly one. Whenever the predicate of the current step fails, \<open>next()\<close> returns
  the wizard state unchanged.
\<close>

theorem next_only_when_step_complete:
  "(currentStep (handleNext w) \<noteq> currentStep w \<longrightarrow>
      currentStep (handleNext w) = currentStep w + 1 \<and>
      (currentStep w = 1 \<longrightarrow> selectedRegion w \<noteq> None \<and> regionName w \<noteq> []) \<and>
      (currentStep w = 2 \<longrightarrow> terrainData w \<noteq> None) \<and>
      (currentStep w = 3 \<longrightarrow> scenario w \<noteq> None) \<and>
      (currentStep w = 4 \<longrightarrow> scenario w \<noteq> None)) \<and>
   (currentStep w = 1 \<and> (selectedRegion w = None \<or> regionName w = []) \<longrightarrow> handleNext w = w) \<and>
   (currentStep w = 2 \<and> terrainData w = None \<longrightarrow> handleNext w = w) \<and>
   (currentStep w = 3 \<and> scenario w = None \<longrightarrow> handleNext w = w) \<and>
   (currentStep w = 4 \<and> scenario w = None \<longrightarrow> handleNext w = w)"
proof -
  have moved: "currentStep (handleNext w) \<noteq> currentStep w \<Longrightarrow>
      canProceed w \<and> currentStep (handleNext w) = currentStep w + 1"
    by (rule handleNext_moves)
  have c1: "canProceed w \<Longrightarrow> currentStep w = 1 \<Longrightarrow>
      selectedRegion w \<noteq> None \<and> regionName w \<noteq> []"
    by (simp add: canProceed_def)
  have c2: "canProceed w \<Longrightarrow> currentStep w = 2 \<Longrightarrow> terrainData w \<noteq> None"
    by (simp add: canProceed_def)
  have c3: "canProceed w \<Longrightarrow> currentStep w = 3 \<Longrightarrow> scenario w \<noteq> None"
    by (simp add: canProceed_def)
  have c4: "canProceed w \<Longrightarrow> currentStep w = 4 \<Longrightarrow> scenario w \<noteq> None"
    by (simp add: canProceed_def)
  have n1: "currentStep w = 1 \<Longrightarrow> selectedRegion w = None \<or> regionName w = [] \<Longrightarrow>
      \<not> canProceed w"
    by (simp add: canProceed_def)
  have n2: "currentStep w = 2 \<Longrightarrow> terrainData w = None \<Longrightarrow> \<not> canProceed w"
    by (simp add: canProceed_def)
  have n3: "currentStep w = 3 \<Longrightarrow> scenario w = None \<Longrightarrow> \<not> canProceed w"
    by (simp add: canProceed_def)
  have n4: "currentStep w = 4 \<Longrightarrow> scenario w = None \<Longrightarrow> \<not> canProceed w"
    by (simp add: canProceed_def)
  have forward: "currentStep (handleNext w) \<noteq> currentStep w \<longrightarrow>
      currentStep (handleNext w) = currentStep w + 1 \<and>
      (currentStep w = 1 \<longrightarrow> selectedRegion w \<noteq> None \<and> regionName w \<noteq> []) \<and>
      (currentStep w = 2 \<longrightarrow> terrainData w \<noteq> None) \<and>
      (currentStep w = 3 \<longrightarrow> scenario w \<noteq> None) \<and>
      (currentStep w = 4 \<longrightarrow> scenario w \<noteq> None)"
    using moved c1 c2 c3 c4 by blast
  have blocked:
    "(currentStep w = 1 \<and> (selectedRegion w = None \<or> regionName w = []) \<longrightarrow> handleNext w = w) \<and>
     (currentStep w = 2 \<and> terrainData w = None \<longrightarrow> handleNext w = w) \<and>
     (currentStep w = 3 \<and> scenario w = None \<longrightarrow> handleNext w = w) \<and>
     (currentStep w = 4 \<and> scenario w = None \<longrightarrow> handleNext w = w)"
    using n1 n2 n3 n4 handleNext_blocked [of w] by blast
  from forward blocked show ?thesis by (rule conjI)
qed

theorem next_only_when_step_complete_witness:
  "currentStep (handleNext \<lparr> currentStep = 1, selectedRegion = Some square_region,
      regionName = ''Bayreuth'', terrainData = Some sample_terrain, scenario = None \<rparr>) = 2 \<and>
   handleNext \<lparr> currentStep = 3, selectedRegion = Some square_region,
      regionName = ''Bayreuth'', terrainData = Some sample_terrain, scenario = None \<rparr> =
     \<lparr> currentStep = 3, selectedRegion = Some square_region,
      regionName = ''Bayreuth'', terrainData = Some sample_terrain, scenario = None \<rparr>"
proof -
  let ?w1 = "\<lparr> currentStep = 1, selectedRegion = Some square_region,
      regionName = ''Bayreuth'', terrainData = Some sample_terrain, scenario = None \<rparr>"
  let ?w3 = "\<lparr> currentStep = 3, selectedRegion = Some square_region,
      regionName = ''Bayreuth'', terrainData = Some sample_terrain, scenario = None \<rparr>"
  have moved: "currentStep (handleNext ?w1) \<noteq> currentStep ?w1"
    by (simp add: handleNext_def canProceed_def)
  have blocked: "currentStep ?w3 = 3 \<and> scenario ?w3 = None" by simp
  from next_only_when_step_complete [of ?w1] moved
  have "currentStep (handleNext ?w1) = currentStep ?w1 + 1" by blast
  moreover from next_only_when_step_complete [of ?w3] blocked
  have "handleNext ?w3 = ?w3" by blast
  ultimately show ?thesis by simp
qed

text \<open>
  Claim C3 (as amended). A wizard that is given a project starts at step 5 with the
  region and the scenario of the project's scenario and with the project's region label
  as the name, whatever the project is (no completion predicate is consulted). Its
  terrain record is absent: a project carries none.
\<close>

theorem loaded_project_starts_at_collaborate:
  "NewAnalysis_init (Some p) =
     \<lparr> currentStep = 5,
       selectedRegion = Some (scenario_region (project_scenario p)),
       regionName = project_region p,
       terrainData = None,
       scenario = Some (project_scenario p) \<rparr>"
  by (simp add: NewAnalysis_init_def)

text \<open>
  The claim as stated, that all prior state is populated, fails at the sample project:
  the wizard it starts has no terrain record.
\<close>

theorem loaded_project_terrain_counterexample:
  "\<not> (currentStep (NewAnalysis_init (Some sample_project)) = 5 \<and>
      selectedRegion (NewAnalysis_init (Some sample_project)) =
        Some (scenario_region (project_scenario sample_project)) \<and>
      regionName (NewAnalysis_init (Some sample_project)) = project_region sample_project \<and>
      scenario (NewAnalysis_init (Some sample_project)) = Some (project_scenario sample_project) \<and>
      terrainData (NewAnalysis_init (Some sample_project)) \<noteq> None)"
  by (simp add: NewAnalysis_init_def)

section \<open>Properties of the scenario generator\<close>



subsection \<open>Rounding of the sum in the zone count\<close>

lemma round_half_even_of_int: "round_half_even (of_int k) = k"
  by (simp add: round_half_even_def)

lemma double_round_in_binade:
  assumes "2 powr of_int e \<le> x" and "x < 2 powr (of_int e + 1)"
  shows "double_round x = of_int (round_half_even (x / 2 powi (e - 52))) * 2 powi (e - 52)"
proof -
  have pos: "0 < x"
    using assms(1) by (smt (verit) powr_gt_zero)
  then have "\<lfloor>log 2 \<bar>x\<bar>\<rfloor> = e"
    using assms by (simp add: floor_log_eq_powr_iff)
  with pos show ?thesis
    by (simp add: double_round_def Let_def)
qed

lemma double_round_exact:
  assumes "2 powr of_int e \<le> x" and "x < 2 powr (of_int e + 1)"
    and "x / 2 powi (e - 52) = of_int k"
  shows "double_round x = x"
proof -
  have nz: "(2::real) powi (e - 52) \<noteq> 0" by simp
  have "double_round x = of_int k * 2 powi (e - 52)"
    using double_round_in_binade [OF assms(1,2)] assms(3) by (simp add: round_half_even_of_int)
  also have "\<dots> = x"
    using assms(3) nz by (simp add: field_simps)
  finally show ?thesis .
qed

lemma whole_target_sum:
  fixes n :: int
  assumes "10 \<le> n" and "n \<le> 50"
  shows "double_round (of_int n / 8 + 1) = of_int n / 8 + 1"
proof (cases "n < 24")
  case True
  have "(of_int n / 8 + 1) / 2 powi (1 - 52) = real_of_int ((n + 8) * 2 ^ 48)"
    by (simp add: power_int_def field_simps)
  moreover have "2 powr of_int 1 \<le> real_of_int n / 8 + 1" using assms by simp
  moreover have "real_of_int n / 8 + 1 < 2 powr (of_int 1 + 1)" using True by simp
  ultimately show ?thesis by (rule double_round_exact [where e = 1, rotated 2])
next
  case False
  have "(of_int n / 8 + 1) / 2 powi (2 - 52) = real_of_int ((n + 8) * 2 ^ 47)"
    by (simp add: power_int_def field_simps)
  moreover have "2 powr of_int 2 \<le> real_of_int n / 8 + 1" using False by simp
  moreover have "real_of_int n / 8 + 1 < 2 powr (of_int 2 + 1)" using assms by simp
  ultimately show ?thesis by (rule double_round_exact [where e = 2, rotated 2])
qed





subsection \<open>The scenario that is handed over\<close>

lemma Math_random_range: "0 \<le> fst (Math_random w) \<and> fst (Math_random w) < 1"
  using Rep_random_number [of "random_feed w 0"] by (simp add: Math_random_def)

lemma floor_scaled:
  fixes r :: real
  assumes "0 \<le> r" "r < 1" "0 < (k::int)"
  shows "0 \<le> \<lfloor>r * of_int k\<rfloor> \<and> \<lfloor>r * of_int k\<rfloor> \<le> k - 1"
proof -
  have "0 \<le> r * of_int k" using assms by simp
  then have lo: "0 \<le> \<lfloor>r * of_int k\<rfloor>" by simp
  have "r * of_int k < of_int k" using assms by simp
  then have "\<lfloor>r * of_int k\<rfloor> < k" by (simp add: floor_less_iff)
  with lo show ?thesis by simp
qed

lemma draw_scaled:
  "0 < k \<Longrightarrow> 0 \<le> \<lfloor>fst (Math_random w) * of_int k\<rfloor> \<and> \<lfloor>fst (Math_random w) * of_int k\<rfloor> \<le> k - 1"
  using Math_random_range [of w] by (intro floor_scaled) simp_all

lemma mockScenario_scores:
  "\<exists>w1 w2 w3.
     sustainabilityScore (fst (mockScenario region st w)) = \<lfloor>fst (Math_random w1) * of_int 30\<rfloor> + 70 \<and>
     accessibilityScore (fst (mockScenario region st w)) = \<lfloor>fst (Math_random w2) * of_int 25\<rfloor> + 75 \<and>
     populationServed (fst (mockScenario region st w)) = \<lfloor>fst (Math_random w3) * of_int 50000\<rfloor> + 100000"
  apply (simp add: mockScenario_def Let_def case_prod_beta)
  apply blast
  done

lemma mockScenario_fields:
  "coverage (fst (mockScenario region st w)) = greenSpaceTarget st \<and>
   scenario_status (fst (mockScenario region st w)) = Draft \<and>
   comments (fst (mockScenario region st w)) = [] \<and>
   scenario_region (fst (mockScenario region st w)) = region \<and>
   greenZones (fst (mockScenario region st w)) =
     fst (generateMockGreenZones region (greenSpaceTarget st) w)"
  by (simp add: mockScenario_def Let_def case_prod_beta)

lemma runAnalysis_Some:
  "runAnalysis (Some region) st w =
     (Some (fst (mockScenario region st w)),
      st\<lparr>isRunning := False, progress := 100\<rparr>,
      snd (mockScenario region st w))"
  by (simp add: runAnalysis_def Let_def case_prod_beta)

lemma mockScenario_priority:
  "mockScenario region (st\<lparr>priorityType := p\<rparr>) w = mockScenario region st w"
  by (simp add: mockScenario_def)




text \<open>
  Claim C8. Two runs of \<open>runAnalysis\<close> on the same region, with the same target, the
  same numbers drawn and the same clock readings, that differ only in \<open>priorityType\<close>
  hand over the same scenario (and leave the same draws and readings for later); with a
  region, a scenario is handed over.
\<close>

theorem priority_ignored:
  "fst (runAnalysis region (st\<lparr>priorityType := p\<rparr>) w) =
     fst (runAnalysis region (st\<lparr>priorityType := q\<rparr>) w) \<and>
   snd (snd (runAnalysis region (st\<lparr>priorityType := p\<rparr>) w)) =
     snd (snd (runAnalysis region (st\<lparr>priorityType := q\<rparr>) w)) \<and>
   fst (runAnalysis (Some r) (st\<lparr>priorityType := p\<rparr>) w) \<noteq> None"
proof -
  have returns: "fst (runAnalysis (Some r) (st\<lparr>priorityType := p\<rparr>) w) \<noteq> None"
    by (simp add: runAnalysis_Some)
  have same: "fst (runAnalysis region (st\<lparr>priorityType := p\<rparr>) w) =
       fst (runAnalysis region (st\<lparr>priorityType := q\<rparr>) w) \<and>
     snd (snd (runAnalysis region (st\<lparr>priorityType := p\<rparr>) w)) =
       snd (snd (runAnalysis region (st\<lparr>priorityType := q\<rparr>) w))"
  proof (cases region)
    case None
    then show ?thesis by (simp add: runAnalysis_def)
  next
    case (Some r')
    then show ?thesis by (simp add: runAnalysis_Some mockScenario_priority)
  qed
  from same returns show ?thesis by blast
qed

text \<open>
  Claim C9. With a region, \<open>runAnalysis\<close> hands over a scenario whose sustainability
  score is from 70 to 99, whose accessibility score is from 75 to 99 and whose
  population served is from 100000 to 149999, whatever numbers \<open>Math.random\<close> returns.
\<close>

theorem score_ranges:
  "\<exists>sc st' w'. runAnalysis (Some region) st w = (Some sc, st', w') \<and>
     70 \<le> sustainabilityScore sc \<and> sustainabilityScore sc \<le> 99 \<and>
     75 \<le> accessibilityScore sc \<and> accessibilityScore sc \<le> 99 \<and>
     100000 \<le> populationServed sc \<and> populationServed sc \<le> 149999"
proof -
  obtain w1 w2 w3 where
    s: "sustainabilityScore (fst (mockScenario region st w)) = \<lfloor>fst (Math_random w1) * of_int 30\<rfloor> + 70" and
    a: "accessibilityScore (fst (mockScenario region st w)) = \<lfloor>fst (Math_random w2) * of_int 25\<rfloor> + 75" and
    p: "populationServed (fst (mockScenario region st w)) = \<lfloor>fst (Math_random w3) * of_int 50000\<rfloor> + 100000"
    using mockScenario_scores [of region st w] by blast
  have "70 \<le> sustainabilityScore (fst (mockScenario region st w)) \<and>
        sustainabilityScore (fst (mockScenario region st w)) \<le> 99"
    using draw_scaled [of 30 w1] s by simp
  moreover have "75 \<le> accessibilityScore (fst (mockScenario region st w)) \<and>
        accessibilityScore (fst (mockScenario region st w)) \<le> 99"
    using draw_scaled [of 25 w2] a by simp
  moreover have "100000 \<le> populationServed (fst (mockScenario region st w)) \<and>
        populationServed (fst (mockScenario region st w)) \<le> 149999"
    using draw_scaled [of 50000 w3] p by simp
  ultimately show ?thesis by (simp add: runAnalysis_Some)
qed

subsection \<open>A run of the generator\<close>

text \<open>
  The generator on the unit square with the default target 25, every draw being one
  half and the clock starting at 1700000000000: four zones, one of each type, and the
  scenario built around them.
\<close>

lemma Rep_half: "Rep_random_number half = 1 / 2"
  by (simp add: half_def Abs_random_number_inverse)

lemma draw_half: "Math_random sample_world = (1 / 2, sample_world)"
  by (simp add: Math_random_def sample_world_def Rep_half)

lemma sample_zones:
  "generateMockGreenZones square_region 25 sample_world =
     ([\<lparr> zone_id = ''zone-0'', zone_name = ''Riverside Park'', area = 30000, zone_type = Park,
         coordinates = [\<lparr>lat = Num (197 / 1000), lng = Num (197 / 1000)\<rparr>,
                        \<lparr>lat = Num (203 / 1000), lng = Num (197 / 1000)\<rparr>,
                        \<lparr>lat = Num (203 / 1000), lng = Num (203 / 1000)\<rparr>,
                        \<lparr>lat = Num (197 / 1000), lng = Num (203 / 1000)\<rparr>] \<rparr>,
       \<lparr> zone_id = ''zone-1'', zone_name = ''Herb Garden'', area = 30000, zone_type = Garden,
         coordinates = [\<lparr>lat = Num (348 / 1000), lng = Num (898 / 1000)\<rparr>,
                        \<lparr>lat = Num (352 / 1000), lng = Num (898 / 1000)\<rparr>,
                        \<lparr>lat = Num (352 / 1000), lng = Num (902 / 1000)\<rparr>,
                        \<lparr>lat = Num (348 / 1000), lng = Num (902 / 1000)\<rparr>] \<rparr>,
       \<lparr> zone_id = ''zone-2'', zone_name = ''Wildlife Corridor'', area = 30000, zone_type = Forest,
         coordinates = [\<lparr>lat = Num (496 / 1000), lng = Num (596 / 1000)\<rparr>,
                        \<lparr>lat = Num (504 / 1000), lng = Num (596 / 1000)\<rparr>,
                        \<lparr>lat = Num (504 / 1000), lng = Num (604 / 1000)\<rparr>,
                        \<lparr>lat = Num (496 / 1000), lng = Num (604 / 1000)\<rparr>] \<rparr>,
       \<lparr> zone_id = ''zone-3'', zone_name = ''Pond Ecosystem'', area = 30000, zone_type = Wetland,
         coordinates = [\<lparr>lat = Num (6475 / 10000), lng = Num (2975 / 10000)\<rparr>,
                        \<lparr>lat = Num (6525 / 10000), lng = Num (2975 / 10000)\<rparr>,
                        \<lparr>lat = Num (6525 / 10000), lng = Num (3025 / 10000)\<rparr>,
                        \<lparr>lat = Num (6475 / 10000), lng = Num (3025 / 10000)\<rparr>] \<rparr>],
      sample_world)"
proof -
  have "double_round (25 / 8 + 1) = 25 / 8 + 1"
    using whole_target_sum [of 25] by simp
  then have sum: "double_round (33 / 8) = 33 / 8" by simp
  show ?thesis
    by (simp add: generateMockGreenZones_def Math_min_def Math_max_def square_region_def sum
        zonesLoop.simps mockZone_def draw_half zoneTypes_def num_sub_def show_nat.simps
        digit_char_def frac_def Let_def)
qed

lemma show_clock: "show_nat 1700000000000 = ''1700000000000''"
  by (simp add: show_nat.simps digit_char_def)

lemma mockScenario_after_zones:
  assumes "generateMockGreenZones region (greenSpaceTarget st) w = (zs, w1)"
  shows "fst (mockScenario region st w) =
     \<lparr> scenario_id = ''scenario-'' @ show_nat (clock_feed w1 0),
       scenario_name = ''AI Generated Scenario '' @ toLocaleDateString w (clock_feed w1 1),
       scenario_timestamp = clock_feed w1 2,
       scenario_region = region,
       greenZones = zs,
       coverage = greenSpaceTarget st,
       sustainabilityScore = \<lfloor>Rep_random_number (random_feed w1 0) * 30\<rfloor> + 70,
       accessibilityScore = \<lfloor>Rep_random_number (random_feed w1 1) * 25\<rfloor> + 75,
       populationServed = \<lfloor>Rep_random_number (random_feed w1 2) * 50000\<rfloor> + 100000,
       scenario_status = Draft,
       comments = [] \<rparr>"
  using assms
  by (simp add: mockScenario_def Let_def case_prod_beta Date_now_def Math_random_def
      numeral_2_eq_2)

lemma end_to_end_example:
  "fst (runAnalysis (Some square_region) StepRunAnalysis_init sample_world) =
     Some \<lparr> scenario_id = ''scenario-1700000000000'',
            scenario_name = ''AI Generated Scenario 11/2/2026'',
            scenario_timestamp = 1700000000002,
            scenario_region = square_region,
            greenZones = fst (generateMockGreenZones square_region 25 sample_world),
            coverage = 25, sustainabilityScore = 85, accessibilityScore = 87,
            populationServed = 125000, scenario_status = Draft, comments = [] \<rparr>"
proof -
  have target: "greenSpaceTarget StepRunAnalysis_init = 25"
    by (simp add: StepRunAnalysis_init_def)
  have zones: "generateMockGreenZones square_region (greenSpaceTarget StepRunAnalysis_init)
      sample_world = (fst (generateMockGreenZones square_region 25 sample_world), sample_world)"
    by (simp add: target sample_zones)
  have feeds: "clock_feed sample_world 0 = 1700000000000 \<and>
      clock_feed sample_world 2 = 1700000000002 \<and>
      toLocaleDateString sample_world (clock_feed sample_world (Suc 0)) = ''11/2/2026'' \<and>
      Rep_random_number (random_feed sample_world 0) = 1 / 2 \<and>
      Rep_random_number (random_feed sample_world (Suc 0)) = 1 / 2 \<and>
      Rep_random_number (random_feed sample_world 2) = 1 / 2"
    by (simp add: sample_world_def Rep_half)
  show ?thesis
    by (simp add: runAnalysis_Some mockScenario_after_zones [OF zones] feeds show_clock target)
qed

section \<open>Properties of the collaborate step\<close>

lemma dropWhile_all: "(\<forall>x\<in>set (dropWhile P s). P x) \<longleftrightarrow> (\<forall>c\<in>set s. P c)"
proof
  assume a: "\<forall>x\<in>set (dropWhile P s). P x"
  have "dropWhile P s = []"
  proof (rule ccontr)
    assume ne: "dropWhile P s \<noteq> []"
    then have "\<not> P (hd (dropWhile P s))" by (rule hd_dropWhile)
    moreover have "hd (dropWhile P s) \<in> set (dropWhile P s)" using ne by simp
    ultimately show False using a by blast
  qed
  then show "\<forall>c\<in>set s. P c" by (simp add: dropWhile_eq_Nil_conv)
next
  assume "\<forall>c\<in>set s. P c"
  then show "\<forall>x\<in>set (dropWhile P s). P x" by (meson set_dropWhileD)
qed

lemma trim_empty_iff: "trim s = [] \<longleftrightarrow> (\<forall>c\<in>set s. isWhiteSpace c)"
  by (simp add: trim_def dropWhile_eq_Nil_conv dropWhile_all)

lemma handleAddComment_blank:
  "\<forall>c\<in>set (newComment st). isWhiteSpace c \<Longrightarrow> handleAddComment sc st w = (sc, st, [], w)"
  by (simp add: handleAddComment_def trim_empty_iff)

lemma handleAddComment_text:
  "\<not> (\<forall>c\<in>set (newComment st). isWhiteSpace c) \<Longrightarrow>
   fst (handleAddComment sc st w) =
     sc\<lparr>comments := comments sc @
        [\<lparr> comment_id = ''comment-'' @ show_nat (fst (Date_now w)),
           author = ''Urban Planner'',
           comment_text = newComment st,
           comment_timestamp = fst (Date_now (snd (Date_now w))) \<rparr>]\<rparr>"
  by (simp add: handleAddComment_def trim_empty_iff Let_def case_prod_beta)

lemma handleAddComment_frame:
  "\<exists>cs. fst (handleAddComment sc st w) = sc\<lparr>comments := comments sc @ cs\<rparr>"
proof (cases "\<forall>c\<in>set (newComment st). isWhiteSpace c")
  case True
  then have "fst (handleAddComment sc st w) = sc\<lparr>comments := comments sc @ []\<rparr>"
    by (simp add: handleAddComment_blank)
  then show ?thesis by blast
next
  case False
  from handleAddComment_text [OF False] show ?thesis by blast
qed

lemma collaborate_step_coverage:
  "coverage (fst (collaborate_step (sc, w) a)) = coverage sc"
proof (cases a)
  case (AddComment typed)
  obtain cs where "fst (handleAddComment sc \<lparr>newComment = typed\<rparr> w) = sc\<lparr>comments := comments sc @ cs\<rparr>"
    using handleAddComment_frame by blast
  then show ?thesis using AddComment by (simp add: case_prod_beta)
next
  case (Approve x1 x2 x3)
  then show ?thesis by (simp add: handleApprove_def Let_def)
next
  case Share
  then show ?thesis by (simp add: handleShare_def)
qed

lemma collaborate_step_status:
  "scenario_status (fst (collaborate_step (sc, w) a)) = Draft \<Longrightarrow> scenario_status sc = Draft"
proof (cases a)
  case (AddComment typed)
  obtain cs where "fst (handleAddComment sc \<lparr>newComment = typed\<rparr> w) = sc\<lparr>comments := comments sc @ cs\<rparr>"
    using handleAddComment_frame by blast
  then show "scenario_status (fst (collaborate_step (sc, w) a)) = Draft \<Longrightarrow> scenario_status sc = Draft"
    using AddComment by (simp add: case_prod_beta)
next
  case (Approve x1 x2 x3)
  then show "scenario_status (fst (collaborate_step (sc, w) a)) = Draft \<Longrightarrow> scenario_status sc = Draft"
    by (simp add: handleApprove_def Let_def split: if_splits)
next
  case Share
  then show "scenario_status (fst (collaborate_step (sc, w) a)) = Draft \<Longrightarrow> scenario_status sc = Draft"
    by (simp add: handleShare_def)
qed

lemma collaborate_run_coverage:
  "coverage (fst (foldl collaborate_step (sc, w) actions)) = coverage sc"
proof (induction actions arbitrary: sc w)
  case Nil
  show ?case by simp
next
  case (Cons a actions)
  obtain sc' w' where step: "collaborate_step (sc, w) a = (sc', w')"
    by (cases "collaborate_step (sc, w) a")
  with collaborate_step_coverage [of sc w a] have "coverage sc' = coverage sc" by simp
  with Cons.IH [of sc' w'] step show ?case by simp
qed

lemma collaborate_run_status:
  "scenario_status (fst (foldl collaborate_step (sc, w) actions)) = Draft \<Longrightarrow>
   scenario_status sc = Draft"
proof (induction actions arbitrary: sc w)
  case Nil
  then show ?case by simp
next
  case (Cons a actions)
  obtain sc' w' where step: "collaborate_step (sc, w) a = (sc', w')"
    by (cases "collaborate_step (sc, w) a")
  with Cons.prems have "scenario_status (fst (foldl collaborate_step (sc', w') actions)) = Draft"
    by simp
  then have "scenario_status sc' = Draft" by (rule Cons.IH)
  with collaborate_step_status [of sc w a] step show ?case by simp
qed

text \<open>
  Claim C10. If the typed comment is empty or consists of white space only,
  \<open>handleAddComment\<close> leaves the scenario as it is. Otherwise the new scenario is the old
  one with exactly one comment appended at the end of its comments, every other field
  being the same; the appended comment carries the typed text (untrimmed) and the author
  \<open>Urban Planner\<close>.
\<close>

theorem add_comment_frame:
  "((\<forall>c\<in>set (newComment st). isWhiteSpace c) \<longrightarrow> fst (handleAddComment sc st w) = sc) \<and>
   (\<not> (\<forall>c\<in>set (newComment st). isWhiteSpace c) \<longrightarrow>
      (\<exists>c. fst (handleAddComment sc st w) = sc\<lparr>comments := comments sc @ [c]\<rparr> \<and>
           comment_text c = newComment st \<and> author c = ''Urban Planner''))"
proof (intro conjI impI)
  assume "\<forall>c\<in>set (newComment st). isWhiteSpace c"
  then show "fst (handleAddComment sc st w) = sc" by (simp add: handleAddComment_blank)
next
  assume "\<not> (\<forall>c\<in>set (newComment st). isWhiteSpace c)"
  from handleAddComment_text [OF this, of sc w]
  show "\<exists>c. fst (handleAddComment sc st w) = sc\<lparr>comments := comments sc @ [c]\<rparr> \<and>
           comment_text c = newComment st \<and> author c = ''Urban Planner''"
    by (intro exI [of _ "\<lparr> comment_id = ''comment-'' @ show_nat (fst (Date_now w)),
           author = ''Urban Planner'', comment_text = newComment st,
           comment_timestamp = fst (Date_now (snd (Date_now w))) \<rparr>"]) simp
qed

theorem add_comment_frame_witness:
  "fst (handleAddComment sample_scenario \<lparr>newComment = [CHR '' '', CHR 0x09, CHR 0x0A]\<rparr> sample_world)
     = sample_scenario \<and>
   (\<exists>c. fst (handleAddComment sample_scenario \<lparr>newComment = '' ok ''\<rparr> sample_world) =
      sample_scenario\<lparr>comments := comments sample_scenario @ [c]\<rparr> \<and>
      comment_text c = '' ok '' \<and> author c = ''Urban Planner'')"
proof -
  have blank: "\<forall>c\<in>set (newComment \<lparr>newComment = [CHR '' '', CHR 0x09, CHR 0x0A]\<rparr>). isWhiteSpace c"
    by (simp add: isWhiteSpace_def)
  have typed: "\<not> (\<forall>c\<in>set (newComment \<lparr>newComment = '' ok ''\<rparr>). isWhiteSpace c)"
    by (simp add: isWhiteSpace_def)
  from add_comment_frame [of "\<lparr>newComment = [CHR '' '', CHR 0x09, CHR 0x0A]\<rparr>" sample_scenario sample_world] blank
  have "fst (handleAddComment sample_scenario \<lparr>newComment = [CHR '' '', CHR 0x09, CHR 0x0A]\<rparr> sample_world)
     = sample_scenario" by blast
  moreover from add_comment_frame [of "\<lparr>newComment = '' ok ''\<rparr>" sample_scenario sample_world] typed
  have "\<exists>c. fst (handleAddComment sample_scenario \<lparr>newComment = '' ok ''\<rparr> sample_world) =
      sample_scenario\<lparr>comments := comments sample_scenario @ [c]\<rparr> \<and>
      comment_text c = '' ok '' \<and> author c = ''Urban Planner''" by simp
  ultimately show ?thesis by (rule conjI)
qed

text \<open>
  Claim C7 (as amended). The handlers of the collaborate step never set the status of a
  scenario to \<open>draft\<close>: whatever sequence of its actions follows, a status other than
  \<open>draft\<close> stays other than \<open>draft\<close>. The single moves are: approving gives \<open>completed\<close>
  (from \<open>draft\<close> and from \<open>shared\<close>; the button is disabled once \<open>completed\<close>), sharing
  gives \<open>shared\<close> (from any status), adding a comment keeps the status.
\<close>

theorem status_never_back_to_draft:
  "(scenario_status sc \<noteq> Draft \<longrightarrow>
      scenario_status (fst (foldl collaborate_step (sc, w) actions)) \<noteq> Draft) \<and>
   scenario_status (fst (collaborate_step (sc, w) (Approve projectId h r))) = Completed \<and>
   scenario_status (fst (collaborate_step (sc, w) Share)) = Shared \<and>
   scenario_status (fst (collaborate_step (sc, w) (AddComment typed))) = scenario_status sc"
proof -
  have run: "scenario_status sc \<noteq> Draft \<longrightarrow>
      scenario_status (fst (foldl collaborate_step (sc, w) actions)) \<noteq> Draft"
    using collaborate_run_status [of sc w actions] by blast
  have approve: "scenario_status (fst (collaborate_step (sc, w) (Approve projectId h r))) = Completed"
    by (simp add: handleApprove_def Let_def)
  have share: "scenario_status (fst (collaborate_step (sc, w) Share)) = Shared"
    by (simp add: handleShare_def)
  obtain cs where "fst (handleAddComment sc \<lparr>newComment = typed\<rparr> w) = sc\<lparr>comments := comments sc @ cs\<rparr>"
    using handleAddComment_frame by blast
  then have comment: "scenario_status (fst (collaborate_step (sc, w) (AddComment typed))) = scenario_status sc"
    by (simp add: case_prod_beta)
  from run approve share comment show ?thesis by blast
qed

theorem status_never_back_to_draft_witness:
  "scenario_status completed_scenario \<noteq> Draft \<and>
   scenario_status (fst (foldl collaborate_step (completed_scenario, sample_world)
      [Share, AddComment ''ok'', Approve None False False])) \<noteq> Draft"
proof -
  have h: "scenario_status completed_scenario \<noteq> Draft"
    by (simp add: completed_scenario_def)
  from status_never_back_to_draft [of completed_scenario sample_world
      "[Share, AddComment ''ok'', Approve None False False]"] h
  show ?thesis by blast
qed

lemma approved_app_scenario: "wizard_scenario approved_app = Some completed_scenario"
  by (simp add: approved_app_def clickApprove_def handleViewProject_def render_def
      NewAnalysis_init_def handleApprove_def loadProjects_def wizard_scenario_def
      dashboard_app_def sample_project_def completed_scenario_def sample_scenario_def Let_def)

lemma approved_app_selected: "selectedProject approved_app = Some sample_project"
  by (simp add: approved_app_def clickApprove_def handleViewProject_def render_def
      NewAnalysis_init_def handleApprove_def loadProjects_def
      dashboard_app_def sample_project_def sample_scenario_def Let_def)

lemma reopened_scenario:
  "wizard_scenario (onNavigate NewAnalysisPage (onNavigate Dashboard approved_app)) =
     Some sample_scenario"
  by (simp add: onNavigate_def render_def approved_app_selected NewAnalysis_init_def
      wizard_scenario_def sample_project_def)

text \<open>
  The claim as stated fails in two ways. A status moves from \<open>shared\<close> to \<open>completed\<close>,
  which is neither of the two moves it allows: approving is enabled on a shared
  scenario. And an operation of the user interface outside the collaborate step takes a
  status back to \<open>draft\<close>: after the sample project is opened from the dashboard and
  approved, its scenario is \<open>completed\<close>; the sidebar then leads to the dashboard and
  back to the wizard, which starts again from the project selected before and holds the
  same scenario as a \<open>draft\<close>.
\<close>

theorem status_regress_counterexample:
  "scenario_status shared_scenario = Shared \<and>
   scenario_status (fst (collaborate_step (shared_scenario, sample_world)
      (Approve None False False))) = Completed \<and>
   map_option scenario_status (wizard_scenario approved_app) = Some Completed \<and>
   map_option scenario_status
     (wizard_scenario (onNavigate NewAnalysisPage (onNavigate Dashboard approved_app))) =
     Some Draft \<and>
   map_option scenario_id (wizard_scenario approved_app) =
     map_option scenario_id
       (wizard_scenario (onNavigate NewAnalysisPage (onNavigate Dashboard approved_app)))"
proof -
  have lateral: "scenario_status shared_scenario = Shared \<and>
      scenario_status (fst (collaborate_step (shared_scenario, sample_world)
        (Approve None False False))) = Completed"
    by (simp add: shared_scenario_def handleApprove_def Let_def)
  have before: "map_option scenario_status (wizard_scenario approved_app) = Some Completed"
    by (simp add: approved_app_scenario completed_scenario_def)
  have after: "map_option scenario_status
      (wizard_scenario (onNavigate NewAnalysisPage (onNavigate Dashboard approved_app))) =
      Some Draft"
    by (simp add: reopened_scenario sample_scenario_def)
  have same: "map_option scenario_id (wizard_scenario approved_app) =
      map_option scenario_id
        (wizard_scenario (onNavigate NewAnalysisPage (onNavigate Dashboard approved_app)))"
    by (simp add: approved_app_scenario reopened_scenario completed_scenario_def)
  from lateral before after same show ?thesis by blast
qed

text \<open>
  Claim C6. The scenario that \<open>runAnalysis\<close> hands over has the green-space target of
  the component as its coverage, whatever the region and the zones generated; and no
  sequence of actions on the collaborate screen (adding a comment, approving, sharing)
  changes the coverage afterwards.
\<close>

theorem coverage_is_target:
  "(\<exists>sc st' w'. runAnalysis (Some region) st w = (Some sc, st', w') \<and>
      coverage sc = greenSpaceTarget st) \<and>
   coverage (fst (foldl collaborate_step (sc0, w0) actions)) = coverage sc0"
proof -
  have "\<exists>sc st' w'. runAnalysis (Some region) st w = (Some sc, st', w') \<and>
      coverage sc = greenSpaceTarget st"
    using mockScenario_fields [of region st w] by (simp add: runAnalysis_Some)
  moreover have "coverage (fst (foldl collaborate_step (sc0, w0) actions)) = coverage sc0"
    by (rule collaborate_run_coverage)
  ultimately show ?thesis by (rule conjI)
qed

section \<open>Properties of the region selector\<close>

lemma updateTempPolygon_frame:
  "map_state (updateTempPolygon s) = map_state s \<and>
   isDrawing (updateTempPolygon s) = isDrawing s \<and>
   drawingPoints (updateTempPolygon s) = drawingPoints s"
  by (simp add: updateTempPolygon_def Let_def)

lemma drawing_inv_updateTempPolygon: "drawing_inv (updateTempPolygon s) = drawing_inv s"
  by (cases "map_state s") (simp_all add: drawing_inv_def updateTempPolygon_frame)

lemma drawing_inv_handler: "drawing_inv s \<Longrightarrow> drawing_inv (map_handler s e)"
proof (cases e)
  case MapLoaded
  assume "drawing_inv s"
  then show ?thesis using MapLoaded
    by (cases "map_state s") (simp_all add: drawing_inv_def)
next
  case SelectRegion
  assume "drawing_inv s"
  then show ?thesis using SelectRegion
    by (cases "map_state s") (simp_all add: drawing_inv_def handleStartDrawing_def)
next
  case (MapClick latLng)
  assume "drawing_inv s"
  then show ?thesis using MapClick
    by (cases "map_state s"; cases latLng) (simp_all add: drawing_inv_def mapClick_def)
next
  case Finish
  assume "drawing_inv s"
  then show ?thesis using Finish
    by (cases "map_state s")
       (simp_all add: drawing_inv_def handleFinishDrawing_def removeListener_def)
next
  case Cancel
  assume "drawing_inv s"
  then show ?thesis using Cancel
    by (cases "map_state s")
       (simp_all add: drawing_inv_def handleCancelDrawing_def removeListener_def)
qed

lemma drawing_inv_step: "drawing_inv s \<Longrightarrow> drawing_inv (map_step s e)"
  by (simp add: map_step_def drawing_inv_updateTempPolygon drawing_inv_handler)

lemma drawing_inv_run: "drawing_inv s \<Longrightarrow> drawing_inv (foldl map_step s es)"
  by (induction es arbitrary: s) (simp_all add: drawing_inv_step)

lemma drawing_inv_init: "drawing_inv MapInterface_init"
  by (simp add: drawing_inv_def MapInterface_init_def)

lemma finish_rejected: "length (drawingPoints s) < 3 \<Longrightarrow> handleFinishDrawing s = (s, None)"
  by (cases "map_state s") (simp_all add: handleFinishDrawing_def)

lemma finish_accepted:
  assumes "drawing_inv s" and "3 \<le> length (drawingPoints s)"
  shows "snd (handleFinishDrawing s) = Some (drawingPoints s) \<and>
         \<not> isDrawing (fst (handleFinishDrawing s)) \<and>
         drawingPoints (fst (handleFinishDrawing s)) = []"
proof (cases "map_state s")
  case None
  with assms show ?thesis by (simp add: drawing_inv_def)
next
  case (Some m)
  with assms(2) show ?thesis by (simp add: handleFinishDrawing_def)
qed

lemma click_appends:
  assumes "drawing_inv s" and "isDrawing s"
  shows "drawingPoints (map_step s (MapClick (Some p))) = drawingPoints s @ [p]"
proof (cases "map_state s")
  case None
  with assms show ?thesis by (simp add: drawing_inv_def)
next
  case (Some m)
  with assms have "attached m = 1" by (simp add: drawing_inv_def)
  with Some show ?thesis
    by (simp add: map_step_def updateTempPolygon_frame mapClick_def)
qed

lemma run_three_clicks:
  "foldl map_step MapInterface_init three_clicks =
     \<lparr> map_state = Some \<lparr>attached = 1, drawingClickListener = True\<rparr>, isDrawing = True,
       drawingPoints = [corner 0, corner 1, corner 2],
       tempPolygonRef = Some \<lparr>paths = [corner 0, corner 1, corner 2], onMap = True\<rparr> \<rparr>"
  by (simp add: three_clicks_def MapInterface_init_def map_step_def updateTempPolygon_def
      handleStartDrawing_def mapClick_def Let_def)

lemma run_two_clicks:
  "foldl map_step MapInterface_init two_clicks =
     \<lparr> map_state = Some \<lparr>attached = 1, drawingClickListener = True\<rparr>, isDrawing = True,
       drawingPoints = [corner 0, corner 1],
       tempPolygonRef = Some \<lparr>paths = [corner 0, corner 1], onMap = True\<rparr> \<rparr>"
  by (simp add: two_clicks_def MapInterface_init_def map_step_def updateTempPolygon_def
      handleStartDrawing_def mapClick_def Let_def)

text \<open>
  Claim C5. After any sequence of events of the component: with fewer than three points
  accumulated, \<open>handleFinishDrawing\<close> changes nothing and calls nothing; with three or
  more, it calls \<open>onRegionSelect\<close> with exactly the accumulated points, leaves drawing
  mode and clears the points. The points accumulate in the order of the clicks: while
  drawing, a click appends its point at the end.
\<close>

theorem finish_drawing:
  assumes "s = foldl map_step MapInterface_init events"
  shows "(length (drawingPoints s) < 3 \<longrightarrow> handleFinishDrawing s = (s, None)) \<and>
         (3 \<le> length (drawingPoints s) \<longrightarrow>
            snd (handleFinishDrawing s) = Some (drawingPoints s) \<and>
            \<not> isDrawing (fst (handleFinishDrawing s)) \<and>
            drawingPoints (fst (handleFinishDrawing s)) = []) \<and>
         (isDrawing s \<longrightarrow>
            drawingPoints (map_step s (MapClick (Some p))) = drawingPoints s @ [p])"
proof -
  have inv: "drawing_inv s"
    unfolding assms by (rule drawing_inv_run) (rule drawing_inv_init)
  show ?thesis
    using finish_rejected [of s] finish_accepted [OF inv] click_appends [OF inv, of p]
    by blast
qed

theorem finish_drawing_witness:
  "snd (handleFinishDrawing (foldl map_step MapInterface_init three_clicks)) =
     Some [corner 0, corner 1, corner 2] \<and>
   \<not> isDrawing (fst (handleFinishDrawing (foldl map_step MapInterface_init three_clicks))) \<and>
   handleFinishDrawing (foldl map_step MapInterface_init two_clicks) =
     (foldl map_step MapInterface_init two_clicks, None)"
proof -
  have three: "3 \<le> length (drawingPoints (foldl map_step MapInterface_init three_clicks))"
    by (simp add: run_three_clicks)
  have two: "length (drawingPoints (foldl map_step MapInterface_init two_clicks)) < 3"
    by (simp add: run_two_clicks)
  from finish_drawing [OF refl, of three_clicks] three
  have "snd (handleFinishDrawing (foldl map_step MapInterface_init three_clicks)) =
      Some (drawingPoints (foldl map_step MapInterface_init three_clicks)) \<and>
    \<not> isDrawing (fst (handleFinishDrawing (foldl map_step MapInterface_init three_clicks)))"
    by blast
  moreover from finish_drawing [OF refl, of two_clicks] two
  have "handleFinishDrawing (foldl map_step MapInterface_init two_clicks) =
     (foldl map_step MapInterface_init two_clicks, None)"
    by blast
  ultimately show ?thesis by (simp add: run_three_clicks)
qed

section \<open>Properties of saving a project\<close>

lemma handleSave_with_scenario:
  assumes "newAnalysis a = Some w" and "scenario w = Some sc"
  shows "handleSave a =
     a\<lparr> api_calls := api_calls a @
          [CreateProject \<lparr> pd_name = scenario_name sc, pd_region = regionName w,
                           pd_status = scenario_status sc, pd_scenario = sc \<rparr>],
        selectedProject := None, currentPage := Dashboard, newAnalysis := None \<rparr>"
  using assms
  by (simp add: handleSave_def onCancel_def render_def handleSaveProject_send_def Let_def)

lemma resume_frame:
  "newAnalysis (handleSaveProject_resume created listed a) = newAnalysis a \<and>
   currentPage (handleSaveProject_resume created listed a) = currentPage a"
  by (simp add: handleSaveProject_resume_def loadProjects_def Let_def split: option.splits)

text \<open>
  Claim C4 (as amended). When \<open>handleSave\<close> runs with a scenario present, the scenario
  and the wizard's region name are sent to the store's create operation, and the wizard
  is closed at once: the page is the dashboard and the wizard's state is gone, before
  the store has answered and whatever it answers. When the create and the reload both
  succeed, the project list is the reloaded one.
\<close>

theorem save_ends_session:
  assumes "newAnalysis a = Some w" and "scenario w = Some sc"
  shows "api_calls (handleSave a) = api_calls a @
           [CreateProject \<lparr> pd_name = scenario_name sc, pd_region = regionName w,
                            pd_status = scenario_status sc, pd_scenario = sc \<rparr>] \<and>
         newAnalysis (handleSave a) = None \<and>
         currentPage (handleSave a) = Dashboard \<and>
         newAnalysis (handleSaveProject_resume created listed (handleSave a)) = None \<and>
         currentPage (handleSaveProject_resume created listed (handleSave a)) = Dashboard \<and>
         projects (handleSaveProject_resume (HttpOk c1 saved) (HttpOk c2 ps) (handleSave a)) = ps"
proof -
  note saved = handleSave_with_scenario [OF assms]
  have sent: "api_calls (handleSave a) = api_calls a @
           [CreateProject \<lparr> pd_name = scenario_name sc, pd_region = regionName w,
                            pd_status = scenario_status sc, pd_scenario = sc \<rparr>]"
    by (simp add: saved)
  have ended: "newAnalysis (handleSave a) = None \<and> currentPage (handleSave a) = Dashboard"
    by (simp add: saved)
  have reloaded:
    "projects (handleSaveProject_resume (HttpOk c1 saved) (HttpOk c2 ps) (handleSave a)) = ps"
    by (simp add: handleSaveProject_resume_def loadProjects_def Let_def)
  from sent ended reloaded resume_frame [of created listed "handleSave a"]
  show ?thesis by simp
qed

theorem save_ends_session_witness:
  "newAnalysis sample_app = Some finished_wizard \<and>
   scenario finished_wizard = Some sample_scenario \<and>
   api_calls (handleSave sample_app) =
     [CreateProject \<lparr> pd_name = ''AI Generated Scenario'', pd_region = ''Bayreuth'',
                      pd_status = Draft, pd_scenario = sample_scenario \<rparr>] \<and>
   newAnalysis (handleSave sample_app) = None \<and>
   currentPage (handleSaveProject_resume (HttpOk 200 sample_project) (HttpOk 200 [sample_project])
      (handleSave sample_app)) = Dashboard \<and>
   projects (handleSaveProject_resume (HttpOk 200 sample_project) (HttpOk 200 [sample_project])
      (handleSave sample_app)) = [sample_project]"
proof -
  have h1: "newAnalysis sample_app = Some finished_wizard"
    by (simp add: sample_app_def)
  have h2: "scenario finished_wizard = Some sample_scenario"
    by (simp add: finished_wizard_def)
  have "api_calls sample_app = []" by (simp add: sample_app_def)
  moreover have "scenario_name sample_scenario = ''AI Generated Scenario'' \<and>
      scenario_status sample_scenario = Draft \<and> regionName finished_wizard = ''Bayreuth''"
    by (simp add: sample_scenario_def finished_wizard_def)
  ultimately show ?thesis
    using save_ends_session [OF h1 h2, of "HttpOk 200 sample_project" "HttpOk 200 [sample_project]"
        200 sample_project 200 "[sample_project]"] h1 h2
    by simp
qed

text \<open>
  The claim as stated, that a failed save leaves the session open with its scenario,
  fails at the sample application state: after a save whose request fails, the wizard
  is unmounted and the page is the dashboard.
\<close>

theorem save_failure_counterexample:
  "newAnalysis (handleSaveProject_resume (Thrown (Some ''Failed to fetch''))
      (Thrown (Some ''Failed to fetch'')) (handleSave sample_app)) = None \<and>
   currentPage (handleSaveProject_resume (Thrown (Some ''Failed to fetch''))
      (Thrown (Some ''Failed to fetch'')) (handleSave sample_app)) = Dashboard"
  by (simp add: handleSaveProject_resume_def handleSave_def onCancel_def render_def
      handleSaveProject_send_def sample_app_def finished_wizard_def Let_def)

end
